theory Spec2Isabelle
  imports Complex_Main "HOL-Library.Sublist" "HOL-Library.Multiset"
begin

section \<open>Text primitives of the host language\<close>

text \<open>
  The server is a Python program. Its text is modelled as \<^typ>\<open>string\<close>; a character
  outside ASCII (the emoji and the bullet of the reports) is written as the bytes of its
  UTF-8 encoding. A number that the program holds as a float is modelled by the real
  number the float denotes, so every comparison, floor division and remainder is the
  exact one. Division by 1024 is exact on binary floats, and so is the conversion of an
  integer below \<open>2 ^ 53\<close>, which covers the byte counts a metrics provider reports.
\<close>

abbreviation NL :: string where
  "NL \<equiv> [CHR 0x0A]"

abbreviation BULLET :: string where
  "BULLET \<equiv> [CHR 0xE2, CHR 0x80, CHR 0xA2]"

definition digit_char :: "nat \<Rightarrow> char" where
  "digit_char n = ''0123456789'' ! n"

text \<open>\<open>str(n)\<close> of a non-negative integer: its decimal digits.\<close>

function str_nat :: "nat \<Rightarrow> string" where
  "str_nat n = (if n < 10 then [digit_char n] else str_nat (n div 10) @ [digit_char (n mod 10)])"
  by pat_completeness auto
termination
  by (relation "measure (\<lambda>n. n)") auto

declare str_nat.simps [simp del]

text \<open>\<open>str(i)\<close> of an integer, as an f-string renders it.\<close>

definition str_int :: "int \<Rightarrow> string" where
  "str_int i = (if i < 0 then ''-'' @ str_nat (nat (- i)) else str_nat (nat i))"

text \<open>An integer that the provider may report as \<open>None\<close>.\<close>

definition str_int_option :: "int option \<Rightarrow> string" where
  "str_int_option v = (case v of None \<Rightarrow> ''None'' | Some i \<Rightarrow> str_int i)"

text \<open>
  Rounding of a non-negative number to the nearest integer, ties to the even one: the
  rounding of the format specifications \<open>.1f\<close> and \<open>.2f\<close>, which round the exact value
  of the float.
\<close>

definition round_half_even :: "real \<Rightarrow> nat" where
  "round_half_even x =
     (let q = nat \<lfloor>x\<rfloor>; r = x - of_int \<lfloor>x\<rfloor>
      in if r < 1 / 2 then q
         else if 1 / 2 < r then q + 1
         else if even q then q else q + 1)"

text \<open>The digits of \<open>n\<close> padded with zeros on the left to at least \<open>d\<close> characters.\<close>

definition zero_pad :: "nat \<Rightarrow> nat \<Rightarrow> string" where
  "zero_pad d n = replicate (d - length (str_nat n)) (CHR ''0'') @ str_nat n"

text \<open>
  \<open>f"{x:.df}"\<close> for \<open>d > 0\<close>: the sign of \<open>x\<close>, then \<open>|x|\<close> rounded to \<open>d\<close> decimals.
  The number that the text shows is \<open>fixed_scaled d x / 10 ^ d\<close>.
\<close>

definition fixed_scaled :: "nat \<Rightarrow> real \<Rightarrow> nat" where
  "fixed_scaled d x = round_half_even (\<bar>x\<bar> * 10 ^ d)"

definition format_fixed :: "nat \<Rightarrow> real \<Rightarrow> string" where
  "format_fixed d x =
     (let m = fixed_scaled d x
      in (if x < 0 then ''-'' else '''') @ str_nat (m div 10 ^ d) @ ''.'' @ zero_pad d (m mod 10 ^ d))"

text \<open>\<open>f"{n:,}"\<close> of an integer: groups of three digits separated by commas.\<close>

function group_thousands :: "nat \<Rightarrow> string" where
  "group_thousands n =
     (if n < 1000 then str_nat n
      else group_thousands (n div 1000) @ '','' @ zero_pad 3 (n mod 1000))"
  by pat_completeness auto
termination
  by (relation "measure (\<lambda>n. n)") auto

declare group_thousands.simps [simp del]

definition format_grouped :: "int \<Rightarrow> string" where
  "format_grouped i =
     (if i < 0 then ''-'' @ group_thousands (nat (- i)) else group_thousands (nat i))"

text \<open>\<open>sep.join(xs)\<close>.\<close>

fun py_join :: "string \<Rightarrow> string list \<Rightarrow> string" where
  "py_join sep [] = []"
| "py_join sep [x] = x"
| "py_join sep (x # y # ys) = x @ sep @ py_join sep (y # ys)"

text \<open>
  \<open>s.upper()\<close> on ASCII text. A byte that is not a lower-case ASCII letter is kept, so
  text outside ASCII, which Python maps by the Unicode tables, is outside this model.
\<close>

definition upper_char :: "char \<Rightarrow> char" where
  "upper_char c =
     (case map_of (zip ''abcdefghijklmnopqrstuvwxyz'' ''ABCDEFGHIJKLMNOPQRSTUVWXYZ'') c of
        None \<Rightarrow> c
      | Some u \<Rightarrow> u)"

definition py_upper :: "string \<Rightarrow> string" where
  "py_upper s = map upper_char s"

text \<open>
  Floor division and remainder of floats (the remainder takes the sign of the divisor),
  and \<open>int(x)\<close>, which truncates towards zero.
\<close>

definition py_floordiv :: "real \<Rightarrow> real \<Rightarrow> real" where
  "py_floordiv x y = of_int \<lfloor>x / y\<rfloor>"

definition py_mod :: "real \<Rightarrow> real \<Rightarrow> real" where
  "py_mod x y = x - y * of_int \<lfloor>x / y\<rfloor>"

definition py_int :: "real \<Rightarrow> int" where
  "py_int x = (if x < 0 then - \<lfloor>- x\<rfloor> else \<lfloor>x\<rfloor>)"

section \<open>Byte counts and uptime\<close>

text \<open>
  \<open>format_bytes\<close>: the loop over the five units, and the fall-through to \<open>PB\<close> when the
  list is exhausted.
\<close>

fun format_bytes_loop :: "real \<Rightarrow> string list \<Rightarrow> string" where
  "format_bytes_loop bytes [] = format_fixed 1 bytes @ ''PB''"
| "format_bytes_loop bytes (unit # units) =
     (if bytes < 1024 then format_fixed 1 bytes @ unit
      else format_bytes_loop (bytes / 1024) units)"

definition format_bytes :: "real \<Rightarrow> string" where
  "format_bytes bytes = format_bytes_loop bytes [''B'', ''KB'', ''MB'', ''GB'', ''TB'']"

text \<open>
  \<open>format_uptime\<close> reads the clock; here the reading \<open>now\<close> is an argument. Both
  instants are seconds on the same wall clock, so their difference is the value of
  \<open>total_seconds()\<close>.
\<close>

definition format_uptime :: "real \<Rightarrow> real \<Rightarrow> string" where
  "format_uptime now boot_time =
     (let uptime_seconds = now - boot_time;
          days = py_int (py_floordiv uptime_seconds 86400);
          hours = py_int (py_floordiv (py_mod uptime_seconds 86400) 3600);
          minutes = py_int (py_floordiv (py_mod uptime_seconds 3600) 60)
      in if days > 0 then str_int days @ ''d '' @ str_int hours @ ''h '' @ str_int minutes @ ''m''
         else if hours > 0 then str_int hours @ ''h '' @ str_int minutes @ ''m''
         else str_int minutes @ ''m'')"

section \<open>Readings of the metrics provider\<close>

text \<open>
  The program obtains every measurement from the \<open>psutil\<close> library and the time from the
  clock. One invocation of a tool reads each of them at most once, so the readings of an
  invocation are collected in a record that the modelled functions take as an argument.
  Percentages and load averages are floats, counts of bytes and packets are integers.
\<close>

record svmem =
  vm_total :: int
  vm_available :: int
  vm_percent :: real
  vm_used :: int

record sswap =
  sw_total :: int
  sw_used :: int
  sw_percent :: real

record sdiskusage =
  du_total :: int
  du_used :: int
  du_free :: int
  du_percent :: real

record snetio =
  bytes_sent :: int
  bytes_recv :: int
  packets_sent :: int
  packets_recv :: int
  errin :: int
  errout :: int
  dropin :: int
  dropout :: int

record snicaddr =
  family :: int
  address :: string

text \<open>
  What \<open>psutil.cpu_freq()\<close> may do: raise, return \<open>None\<close>, or return the current and the
  maximal frequency.
\<close>

datatype cpu_freq_reading = Freq_raises | Freq_none | Freq real real

text \<open>
  The \<open>info\<close> dictionary of one process: every requested key is present, and a value that
  could not be read is \<open>None\<close>. \<open>pi_rss\<close> is the \<open>rss\<close> field of \<open>memory_info\<close>.
\<close>

record pinfo =
  pi_pid :: int
  pi_name :: "string option"
  pi_cpu_percent :: "real option"
  pi_memory_percent :: "real option"
  pi_rss :: "int option"

record provider =
  clock_now :: real
  cpu_percent :: real
  cpu_count_logical :: "int option"
  cpu_count_physical :: "int option"
  cpu_percent_percpu :: "real list"
  cpu_freq :: cpu_freq_reading
  loadavg :: "real \<times> real \<times> real"
  virtual_memory :: svmem
  swap_memory :: sswap
  disk_usage :: sdiskusage
  boot_time :: real
  net_io_counters :: snetio
  net_if_addrs :: "(string \<times> snicaddr list) list"
  process_iter :: "pinfo list"

section \<open>Alerts\<close>

text \<open>
  An alert is the dictionary with the keys \<open>level\<close>, \<open>type\<close>, \<open>message\<close> and \<open>value\<close>.
  The message interpolates the float by \<open>str\<close>, whose shortest-digits output is not a
  function of this development: it is the parameter \<open>fstr\<close> of the functions below.
\<close>

record alert =
  alert_level :: string
  alert_type :: string
  alert_message :: string
  alert_value :: real

definition check_system_alerts :: "(real \<Rightarrow> string) \<Rightarrow> provider \<Rightarrow> alert list" where
  "check_system_alerts fstr p =
     (let alerts = [];
          cpu_percent = cpu_percent p;
          alerts =
            (if cpu_percent > 80
             then alerts @ [\<lparr>alert_level = (if cpu_percent > 90 then ''high'' else ''medium''),
                              alert_type = ''CPU'',
                              alert_message = ''CPU usage is '' @ fstr cpu_percent @ ''%'',
                              alert_value = cpu_percent\<rparr>]
             else alerts);
          memory = virtual_memory p;
          alerts =
            (if vm_percent memory > 85
             then alerts @ [\<lparr>alert_level = (if vm_percent memory > 95 then ''high'' else ''medium''),
                              alert_type = ''Memory'',
                              alert_message = ''Memory usage is '' @ fstr (vm_percent memory) @ ''%'',
                              alert_value = vm_percent memory\<rparr>]
             else alerts);
          disk = disk_usage p;
          alerts =
            (if du_percent disk > 90
             then alerts @ [\<lparr>alert_level = (if du_percent disk > 95 then ''high'' else ''medium''),
                              alert_type = ''Disk'',
                              alert_message = ''Disk usage is '' @ fstr (du_percent disk) @ ''%'',
                              alert_value = du_percent disk\<rparr>]
             else alerts);
          swap = swap_memory p;
          alerts =
            (if sw_percent swap > 75
             then alerts @ [\<lparr>alert_level = ''medium'',
                              alert_type = ''Swap'',
                              alert_message = ''Swap usage is '' @ fstr (sw_percent swap) @ ''%'',
                              alert_value = sw_percent swap\<rparr>]
             else alerts)
      in alerts)"

section \<open>Reports\<close>

abbreviation EMOJI_DESKTOP :: string where
  "EMOJI_DESKTOP \<equiv> [CHR 0xF0, CHR 0x9F, CHR 0x96, CHR 0xA5, CHR 0xEF, CHR 0xB8, CHR 0x8F]"

abbreviation EMOJI_TOP :: string where
  "EMOJI_TOP \<equiv> [CHR 0xF0, CHR 0x9F, CHR 0x94, CHR 0x9D]"

abbreviation EMOJI_GLOBE :: string where
  "EMOJI_GLOBE \<equiv> [CHR 0xF0, CHR 0x9F, CHR 0x8C, CHR 0x90]"

abbreviation EMOJI_WRENCH :: string where
  "EMOJI_WRENCH \<equiv> [CHR 0xF0, CHR 0x9F, CHR 0x94, CHR 0xA7]"

abbreviation EMOJI_CHECK :: string where
  "EMOJI_CHECK \<equiv> [CHR 0xE2, CHR 0x9C, CHR 0x85]"

abbreviation EMOJI_WARNING :: string where
  "EMOJI_WARNING \<equiv> [CHR 0xE2, CHR 0x9A, CHR 0xA0, CHR 0xEF, CHR 0xB8, CHR 0x8F]"

abbreviation EMOJI_RED :: string where
  "EMOJI_RED \<equiv> [CHR 0xF0, CHR 0x9F, CHR 0x94, CHR 0xB4]"

abbreviation EMOJI_YELLOW :: string where
  "EMOJI_YELLOW \<equiv> [CHR 0xF0, CHR 0x9F, CHR 0x9F, CHR 0xA1]"

text \<open>
  \<open>get_system_status\<close>. The local calendar rendering of the boot time by \<open>strftime\<close> is
  the parameter \<open>ftime\<close>.
\<close>

definition get_system_status :: "(real \<Rightarrow> string) \<Rightarrow> (real \<Rightarrow> string) \<Rightarrow> provider \<Rightarrow> string" where
  "get_system_status fstr ftime p =
     (let cpu_percent = cpu_percent p;
          cpu_count = cpu_count_logical p;
          memory = virtual_memory p;
          swap = swap_memory p;
          disk = disk_usage p;
          boot_time = boot_time p;
          uptime = format_uptime (clock_now p) boot_time
      in EMOJI_DESKTOP @ '' **MacMon System Status**'' @ NL
         @ NL
         @ ''**CPU**'' @ NL
         @ ''- Usage: '' @ fstr cpu_percent @ ''% ('' @ str_int_option cpu_count @ '' cores)'' @ NL
         @ ''- Load Average: ''
         @ py_join '', '' (case loadavg p of (load1, load5, load15) \<Rightarrow> map fstr [load1, load5, load15]) @ NL
         @ NL
         @ ''**Memory**'' @ NL
         @ ''- RAM: '' @ fstr (vm_percent memory) @ ''% used ('' @ format_bytes (of_int (vm_used memory))
         @ '' / '' @ format_bytes (of_int (vm_total memory)) @ '')'' @ NL
         @ ''- Swap: '' @ fstr (sw_percent swap) @ ''% used ('' @ format_bytes (of_int (sw_used swap))
         @ '' / '' @ format_bytes (of_int (sw_total swap)) @ '')'' @ NL
         @ ''- Available: '' @ format_bytes (of_int (vm_available memory)) @ NL
         @ NL
         @ ''**Storage**'' @ NL
         @ ''- Disk Usage: '' @ fstr (du_percent disk) @ ''% used'' @ NL
         @ ''- Used: '' @ format_bytes (of_int (du_used disk)) @ '' / '' @ format_bytes (of_int (du_total disk)) @ NL
         @ ''- Free: '' @ format_bytes (of_int (du_free disk)) @ NL
         @ NL
         @ ''**System**'' @ NL
         @ ''- Uptime: '' @ uptime @ NL
         @ ''- Boot Time: '' @ ftime boot_time)"

text \<open>
  \<open>get_top_processes\<close>. The first loop of the source only primes the provider's counters;
  the second builds one dictionary per process, whose keys are the fields of \<open>process\<close>.
  Nothing in the body of that loop can raise on a well-typed \<open>info\<close> dictionary, so its
  exception handlers have no branch here.
\<close>

record process =
  p_pid :: int
  p_name :: "string option"
  p_cpu_percent :: real
  p_memory_percent :: real
  p_memory_mb :: real

definition str_option :: "string option \<Rightarrow> string" where
  "str_option v = (case v of None \<Rightarrow> ''None'' | Some s \<Rightarrow> s)"

definition collect_process :: "pinfo \<Rightarrow> process" where
  "collect_process pinfo =
     (let pid = pi_pid pinfo;
          name = pi_name pinfo;
          cpu_percent = (case pi_cpu_percent pinfo of None \<Rightarrow> 0 | Some v \<Rightarrow> v);
          memory_percent = (case pi_memory_percent pinfo of None \<Rightarrow> 0 | Some v \<Rightarrow> v);
          memory_mb = (case pi_rss pinfo of None \<Rightarrow> 0 | Some rss \<Rightarrow> of_int rss / 1024 / 1024)
      in \<lparr>p_pid = pid, p_name = name, p_cpu_percent = cpu_percent,
          p_memory_percent = memory_percent, p_memory_mb = memory_mb\<rparr>)"

text \<open>
  \<open>xs.sort(key=k, reverse=True)\<close>: the sort is stable, and with \<open>reverse=True\<close> elements
  of equal key keep their original order, so it is the stable ascending sort by the
  negated key.
\<close>

definition py_sort_reverse :: "('a \<Rightarrow> real) \<Rightarrow> 'a list \<Rightarrow> 'a list" where
  "py_sort_reverse k xs = sort_key (\<lambda>x. - k x) xs"

text \<open>\<open>xs[:n]\<close>: a negative \<open>n\<close> counts from the end.\<close>

definition py_slice_to :: "'a list \<Rightarrow> int \<Rightarrow> 'a list" where
  "py_slice_to xs n = (if n < 0 then take (length xs - nat (- n)) xs else take (nat n) xs)"

text \<open>\<open>enumerate(xs, start)\<close>.\<close>

definition py_enumerate :: "nat \<Rightarrow> 'a list \<Rightarrow> (nat \<times> 'a) list" where
  "py_enumerate start xs = zip [start ..< start + length xs] xs"

definition get_top_processes :: "int \<Rightarrow> string \<Rightarrow> provider \<Rightarrow> string" where
  "get_top_processes limit sort_by p =
     (let processes = map collect_process (process_iter p);
          processes =
            (if sort_by = ''memory'' then py_sort_reverse p_memory_percent processes
             else py_sort_reverse p_cpu_percent processes);
          result = EMOJI_TOP @ '' **Top '' @ str_int limit @ '' Processes by '' @ py_upper sort_by @ ''**'' @ NL @ NL
      in foldl (\<lambda>result (i, proc).
                 result
                 @ (str_nat i @ ''. **'' @ str_option (p_name proc) @ ''** (PID: '' @ str_int (p_pid proc) @ '')'' @ NL)
                 @ (''   '' @ BULLET @ '' CPU: '' @ format_fixed 1 (p_cpu_percent proc) @ ''%'' @ NL)
                 @ (''   '' @ BULLET @ '' Memory: '' @ format_fixed 1 (p_memory_percent proc) @ ''% (''
                    @ format_fixed 1 (p_memory_mb proc) @ '' MB)'' @ NL @ NL))
           result (py_enumerate 1 (py_slice_to processes limit)))"

text \<open>\<open>get_network_stats\<close>. Address family 2 is IPv4.\<close>

definition get_network_stats :: "provider \<Rightarrow> string" where
  "get_network_stats p =
     (let stats = net_io_counters p;
          result =
            EMOJI_GLOBE @ '' **Network Statistics**'' @ NL
            @ NL
            @ ''**Data Transfer**'' @ NL
            @ ''- Sent: '' @ format_bytes (of_int (bytes_sent stats)) @ NL
            @ ''- Received: '' @ format_bytes (of_int (bytes_recv stats)) @ NL
            @ NL
            @ ''**Packets**'' @ NL
            @ ''- Sent: '' @ format_grouped (packets_sent stats) @ NL
            @ ''- Received: '' @ format_grouped (packets_recv stats) @ NL
            @ ''- Errors: '' @ format_grouped (errin stats + errout stats) @ NL
            @ ''- Dropped: '' @ format_grouped (dropin stats + dropout stats);
          addrs = net_if_addrs p;
          active_interfaces =
            concat (map (\<lambda>(interface, addr_list).
                           map (\<lambda>addr. BULLET @ '' '' @ interface @ '': '' @ address addr)
                             (filter (\<lambda>addr. family addr = 2) addr_list))
                      addrs)
      in if active_interfaces \<noteq> []
         then result @ NL @ NL @ ''**Active Interfaces**'' @ NL @ py_join NL active_interfaces
         else result)"

text \<open>
  \<open>get_cpu_details\<close>. The frequency lines are inside \<open>try\<close> with a bare \<open>except\<close>: a
  provider that raises leaves the report without them.
\<close>

definition get_cpu_details :: "(real \<Rightarrow> string) \<Rightarrow> provider \<Rightarrow> string" where
  "get_cpu_details fstr p =
     (let cpu_percent_per_core = cpu_percent_percpu p;
          result =
            EMOJI_WRENCH @ '' **Detailed CPU Information**'' @ NL
            @ NL
            @ ''**Overall**'' @ NL
            @ ''- Physical Cores: '' @ str_int_option (cpu_count_physical p) @ NL
            @ ''- Logical Cores: '' @ str_int_option (cpu_count_logical p) @ NL;
          result =
            (case cpu_freq p of
               Freq_raises \<Rightarrow> result
             | Freq_none \<Rightarrow> result
             | Freq current maxf \<Rightarrow>
                 (let result = result @ BULLET @ '' Current Frequency: '' @ format_fixed 2 current @ '' MHz'' @ NL
                  in if maxf > 0
                     then result @ BULLET @ '' Max Frequency: '' @ format_fixed 2 maxf @ '' MHz'' @ NL
                     else result));
          result = result @ NL @ ''**Per-Core Usage**'' @ NL;
          result =
            foldl (\<lambda>result (i, percent). result @ BULLET @ '' Core '' @ str_nat i @ '': '' @ fstr percent @ ''%'' @ NL)
              result (py_enumerate 0 cpu_percent_per_core);
          result = result @ NL @ ''**Load Average**'' @ NL
      in case loadavg p of
           (load1, load5, load15) \<Rightarrow>
             result
             @ BULLET @ '' 1 min: '' @ format_fixed 2 load1 @ NL
             @ BULLET @ '' 5 min: '' @ format_fixed 2 load5 @ NL
             @ BULLET @ '' 15 min: '' @ format_fixed 2 load15)"

section \<open>Dispatch\<close>

text \<open>
  The arguments of a call are a dictionary or \<open>None\<close>. The two keys the handler reads
  are typed by the schema that \<open>handle_list_tools\<close> publishes: \<open>limit\<close> is an integer and
  \<open>sort_by\<close> a string; an absent key is \<open>None\<close> here. An empty dictionary is false in
  Python, and it gives the same defaults as \<open>None\<close>.
\<close>

record tool_arguments =
  arg_limit :: "int option"
  arg_sort_by :: "string option"

datatype error = ValueError string

datatype text_content = TextContent (content_type: string) (content_text: string)

text \<open>
  The loop of the \<open>check_alerts\<close> branch, which appends one line per alert to the header
  of the summary.
\<close>

definition render_alerts :: "alert list \<Rightarrow> string" where
  "render_alerts alerts =
     foldl (\<lambda>response alert.
              response
              @ (if alert_level alert = ''high'' then EMOJI_RED else EMOJI_YELLOW)
              @ '' **'' @ alert_type alert @ ''**: '' @ alert_message alert @ NL)
       (EMOJI_WARNING @ '' **System Alerts**'' @ NL @ NL) alerts"

definition handle_call_tool ::
  "(real \<Rightarrow> string) \<Rightarrow> (real \<Rightarrow> string) \<Rightarrow> provider \<Rightarrow> string \<Rightarrow> tool_arguments option
     \<Rightarrow> error + text_content list" where
  "handle_call_tool fstr ftime p name arguments =
     (if name = ''get_system_status''
      then Inr [TextContent ''text'' (get_system_status fstr ftime p)]
      else if name = ''get_top_processes''
      then (let limit = (case arguments of None \<Rightarrow> 10
                         | Some a \<Rightarrow> (case arg_limit a of None \<Rightarrow> 10 | Some l \<Rightarrow> l));
                sort_by = (case arguments of None \<Rightarrow> ''cpu''
                           | Some a \<Rightarrow> (case arg_sort_by a of None \<Rightarrow> ''cpu'' | Some s \<Rightarrow> s))
            in Inr [TextContent ''text'' (get_top_processes limit sort_by p)])
      else if name = ''get_network_stats''
      then Inr [TextContent ''text'' (get_network_stats p)]
      else if name = ''get_cpu_details''
      then Inr [TextContent ''text'' (get_cpu_details fstr p)]
      else if name = ''check_alerts''
      then (let alerts = check_system_alerts fstr p
            in if alerts = []
               then Inr [TextContent ''text'' (EMOJI_CHECK @ '' All systems normal - no alerts'')]
               else Inr [TextContent ''text'' (render_alerts alerts)])
      else Inl (ValueError (''Unknown tool: '' @ name)))"

section \<open>Observations used to state the properties\<close>

text \<open>
  The number that a text starts with: the digits before an optional decimal point and the
  digits after it, read in base ten.
\<close>

definition is_digit :: "char \<Rightarrow> bool" where
  "is_digit c = (c \<in> set ''0123456789'')"





text \<open>
  The threshold table of the specification: for each domain the medium threshold and,
  where there is one, the high threshold; and the severity that the table gives a value.
\<close>

definition spec_severity :: "real \<Rightarrow> real \<Rightarrow> real option \<Rightarrow> string option" where
  "spec_severity v medium high =
     (if (case high of None \<Rightarrow> False | Some h \<Rightarrow> v > h) then Some ''high''
      else if v > medium then Some ''medium''
      else None)"

definition spec_alert_table :: "provider \<Rightarrow> (string \<times> real \<times> real \<times> real option) list" where
  "spec_alert_table p =
     [(''CPU'', cpu_percent p, 80, Some 90),
      (''Memory'', vm_percent (virtual_memory p), 85, Some 95),
      (''Disk'', du_percent (disk_usage p), 90, Some 95),
      (''Swap'', sw_percent (swap_memory p), 75, None)]"

definition spec_evaluate_alerts :: "provider \<Rightarrow> (string \<times> string \<times> real) list" where
  "spec_evaluate_alerts p =
     List.map_filter
       (\<lambda>(domain, v, medium, high). map_option (\<lambda>severity. (domain, severity, v)) (spec_severity v medium high))
       (spec_alert_table p)"

text \<open>The line of the alert summary for one alert, without its line terminator.\<close>

definition alert_line :: "alert \<Rightarrow> string" where
  "alert_line a =
     (if alert_level a = ''high'' then EMOJI_RED else EMOJI_YELLOW)
     @ '' **'' @ alert_type a @ ''**: '' @ alert_message a"

text \<open>The lines of a text in which every line ends with a line terminator.\<close>

fun terminated_lines :: "string \<Rightarrow> string list" where
  "terminated_lines [] = []"
| "terminated_lines (c # cs) =
     (if c = CHR 0x0A then [] # terminated_lines cs
      else (case terminated_lines cs of [] \<Rightarrow> [[c]] | l # ls \<Rightarrow> (c # l) # ls))"

text \<open>The header of the process report and the three lines of its entry number \<open>i\<close>.\<close>

definition process_header :: "int \<Rightarrow> string \<Rightarrow> string" where
  "process_header limit sort_by =
     EMOJI_TOP @ '' **Top '' @ str_int limit @ '' Processes by '' @ py_upper sort_by @ ''**'' @ NL @ NL"

definition process_entry :: "nat \<Rightarrow> process \<Rightarrow> string" where
  "process_entry i proc =
     str_nat i @ ''. **'' @ str_option (p_name proc) @ ''** (PID: '' @ str_int (p_pid proc) @ '')'' @ NL
     @ ''   '' @ BULLET @ '' CPU: '' @ format_fixed 1 (p_cpu_percent proc) @ ''%'' @ NL
     @ ''   '' @ BULLET @ '' Memory: '' @ format_fixed 1 (p_memory_percent proc) @ ''% (''
     @ format_fixed 1 (p_memory_mb proc) @ '' MB)'' @ NL @ NL"

definition process_entries :: "process list \<Rightarrow> string" where
  "process_entries ps = concat (map (\<lambda>i. process_entry (i + 1) (ps ! i)) [0 ..< length ps])"

text \<open>
  A provider at rest, from which the examples are built by setting the readings that
  matter, and a rendering of times used where an example needs one.
\<close>

definition idle_provider :: provider where
  "idle_provider =
     \<lparr>clock_now = 0, cpu_percent = 0, cpu_count_logical = Some 8, cpu_count_physical = Some 4,
      cpu_percent_percpu = [], cpu_freq = Freq_none, loadavg = (0, 0, 0),
      virtual_memory = \<lparr>vm_total = 0, vm_available = 0, vm_percent = 0, vm_used = 0\<rparr>,
      swap_memory = \<lparr>sw_total = 0, sw_used = 0, sw_percent = 0\<rparr>,
      disk_usage = \<lparr>du_total = 0, du_used = 0, du_free = 0, du_percent = 0\<rparr>,
      boot_time = 0,
      net_io_counters = \<lparr>bytes_sent = 0, bytes_recv = 0, packets_sent = 0, packets_recv = 0,
                         errin = 0, errout = 0, dropin = 0, dropout = 0\<rparr>,
      net_if_addrs = [], process_iter = []\<rparr>"

definition sample :: "real \<Rightarrow> real \<Rightarrow> real \<Rightarrow> real \<Rightarrow> provider" where
  "sample cpu memory disk swap =
     idle_provider
       \<lparr>cpu_percent := cpu,
        virtual_memory := (virtual_memory idle_provider)\<lparr>vm_percent := memory\<rparr>,
        disk_usage := (disk_usage idle_provider)\<lparr>du_percent := disk\<rparr>,
        swap_memory := (swap_memory idle_provider)\<lparr>sw_percent := swap\<rparr>\<rparr>"

definition three_processes :: "pinfo list" where
  "three_processes =
     [\<lparr>pi_pid = 101, pi_name = Some ''alpha'', pi_cpu_percent = Some 5, pi_memory_percent = Some 3,
       pi_rss = Some 1048576\<rparr>,
      \<lparr>pi_pid = 102, pi_name = Some ''beta'', pi_cpu_percent = Some 20, pi_memory_percent = Some 1,
       pi_rss = Some 2097152\<rparr>,
      \<lparr>pi_pid = 103, pi_name = None, pi_cpu_percent = None, pi_memory_percent = Some 2,
       pi_rss = None\<rparr>]"

definition seconds_text :: "real \<Rightarrow> string" where
  "seconds_text t = str_int \<lfloor>t\<rfloor>"


section \<open>Facts about the text primitives\<close>

lemma str_nat_eval:
  "str_nat 0 = ''0''"
  "str_nat (Suc 0) = ''1''"
  "str_nat (numeral k) =
     (if (numeral k :: nat) < 10 then [digit_char (numeral k)]
      else str_nat (numeral k div 10) @ [digit_char (numeral k mod 10)])"
  by (simp_all add: str_nat.simps [of 0] str_nat.simps [of "Suc 0"] str_nat.simps [of "numeral k"]
      digit_char_def)

lemma lt10_cases: "n < 10 \<Longrightarrow> n \<in> {0, 1, 2, 3, 4, 5, 6, 7, 8, 9 :: nat}"
  by auto

lemma digit_char_is_digit: "n < 10 \<Longrightarrow> is_digit (digit_char n)"
  using lt10_cases [of n] by (auto simp: is_digit_def digit_char_def)




lemma str_nat_all_digits: "c \<in> set (str_nat n) \<Longrightarrow> is_digit c"
proof (induction n rule: str_nat.induct)
  case (1 n)
  show ?case
  proof (cases "n < 10")
    case True
    with 1(2) show ?thesis
      by (simp add: str_nat.simps [of n] digit_char_is_digit)
  next
    case False
    with 1 show ?thesis
      by (auto simp: str_nat.simps [of n] digit_char_is_digit)
  qed
qed




lemma zero_pad_one: "k < 10 \<Longrightarrow> zero_pad (Suc 0) k = [digit_char k]"
  by (simp add: zero_pad_def str_nat.simps [of k])




lemma format_fixed_one:
  "format_fixed 1 x =
     (if x < 0 then ''-'' else '''') @ str_nat (fixed_scaled 1 x div 10) @ ''.''
     @ [digit_char (fixed_scaled 1 x mod 10)]"
  by (simp add: format_fixed_def Let_def zero_pad_one)




lemmas eval_text =
  format_bytes_def format_fixed_def fixed_scaled_def round_half_even_def zero_pad_def
  str_nat_eval digit_char_def Let_def str_int_def


section \<open>Byte counts\<close>











section \<open>Alerts\<close>

lemmas eval_sample = sample_def idle_provider_def

text \<open>
  C1: \<open>check_system_alerts\<close> evaluates the four domains independently and in the order CPU,
  Memory, Disk, Swap. A domain gives an alert of severity high when its value exceeds the
  high threshold (CPU 90, Memory 95, Disk 95), otherwise of severity medium when it exceeds
  the medium threshold (CPU 80, Memory 85, Disk 90, Swap 75), otherwise none: the result is
  the evaluation of the threshold table. The sample cpu 85, memory 50, disk 50, swap 10
  yields exactly one alert, CPU of severity medium; the sample 95, 97, 96, 80 yields four
  alerts, CPU, Memory and Disk high and Swap medium, in this order.
\<close>

theorem check_system_alerts_table:
  "map (\<lambda>a. (alert_type a, alert_level a, alert_value a)) (check_system_alerts fstr p)
     = spec_evaluate_alerts p
   \<and> check_system_alerts fstr (sample 85 50 50 10)
     = [\<lparr>alert_level = ''medium'', alert_type = ''CPU'',
         alert_message = ''CPU usage is '' @ fstr 85 @ ''%'', alert_value = 85\<rparr>]
   \<and> map (\<lambda>a. (alert_type a, alert_level a)) (check_system_alerts fstr (sample 95 97 96 80))
     = [(''CPU'', ''high''), (''Memory'', ''high''), (''Disk'', ''high''), (''Swap'', ''medium'')]"
proof (intro conjI)
  show "map (\<lambda>a. (alert_type a, alert_level a, alert_value a)) (check_system_alerts fstr p)
     = spec_evaluate_alerts p"
    by (simp add: check_system_alerts_def spec_evaluate_alerts_def spec_alert_table_def
        spec_severity_def List.map_filter_simps Let_def)
  show "check_system_alerts fstr (sample 85 50 50 10)
     = [\<lparr>alert_level = ''medium'', alert_type = ''CPU'',
         alert_message = ''CPU usage is '' @ fstr 85 @ ''%'', alert_value = 85\<rparr>]"
    by (simp add: check_system_alerts_def eval_sample Let_def)
  show "map (\<lambda>a. (alert_type a, alert_level a)) (check_system_alerts fstr (sample 95 97 96 80))
     = [(''CPU'', ''high''), (''Memory'', ''high''), (''Disk'', ''high''), (''Swap'', ''medium'')]"
    by (simp add: check_system_alerts_def eval_sample Let_def)
qed

text \<open>
  C7: whatever the readings, an alert for the Swap domain has severity medium; the Swap
  domain never gives an alert of severity high.
\<close>

theorem swap_alert_is_medium:
  "\<forall>a \<in> set (check_system_alerts fstr p). alert_type a = ''Swap'' \<longrightarrow> alert_level a = ''medium''"
  by (simp add: check_system_alerts_def Let_def)

theorem swap_alert_is_medium_witness:
  "last (check_system_alerts (format_fixed 1) (sample 95 97 96 100))
     \<in> set (check_system_alerts (format_fixed 1) (sample 95 97 96 100))
   \<and> alert_type (last (check_system_alerts (format_fixed 1) (sample 95 97 96 100))) = ''Swap''
   \<and> alert_value (last (check_system_alerts (format_fixed 1) (sample 95 97 96 100))) = 100
   \<and> alert_level (last (check_system_alerts (format_fixed 1) (sample 95 97 96 100))) = ''medium''"
proof -
  let ?alerts = "check_system_alerts (format_fixed 1) (sample 95 97 96 100)"
  have ne: "?alerts \<noteq> []"
    by (simp add: check_system_alerts_def eval_sample Let_def)
  then have mem: "last ?alerts \<in> set ?alerts"
    by (rule last_in_set)
  have swap: "alert_type (last ?alerts) = ''Swap''" "alert_value (last ?alerts) = 100"
    by (simp_all add: check_system_alerts_def eval_sample Let_def)
  from swap_alert_is_medium [of "format_fixed 1" "sample 95 97 96 100"] mem swap(1)
  have "alert_level (last ?alerts) = ''medium''"
    by blast
  with mem swap show ?thesis
    by simp
qed

section \<open>The alert summary and the dispatch\<close>

lemma foldl_append_concat:
  "foldl (\<lambda>acc x. acc @ g x) init xs = init @ concat (map g xs)"
  by (induction xs arbitrary: init) simp_all

lemma render_alerts_lines:
  "render_alerts alerts =
     EMOJI_WARNING @ '' **System Alerts**'' @ NL @ NL @ concat (map (\<lambda>a. alert_line a @ NL) alerts)"
  unfolding render_alerts_def
  using foldl_append_concat [of "\<lambda>a. alert_line a @ NL" "EMOJI_WARNING @ '' **System Alerts**'' @ NL @ NL" alerts]
  by (simp add: alert_line_def)

lemma terminated_lines_line:
  "CHR 0x0A \<notin> set l \<Longrightarrow> terminated_lines (l @ NL @ rest) = l # terminated_lines rest"
  by (induction l) auto

lemma terminated_lines_concat:
  "(\<And>x. x \<in> set xs \<Longrightarrow> CHR 0x0A \<notin> set (g x)) \<Longrightarrow>
     terminated_lines (concat (map (\<lambda>x. g x @ NL) xs)) = map g xs"
proof (induction xs)
  case Nil
  then show ?case by simp
next
  case (Cons x xs)
  have "terminated_lines (g x @ NL @ concat (map (\<lambda>x. g x @ NL) xs))
      = g x # terminated_lines (concat (map (\<lambda>x. g x @ NL) xs))"
    using Cons.prems by (intro terminated_lines_line) simp
  with Cons show ?case
    by simp
qed

lemma alert_lines_no_newline:
  assumes "\<And>v. CHR 0x0A \<notin> set (fstr v)" and "a \<in> set (check_system_alerts fstr p)"
  shows "CHR 0x0A \<notin> set (alert_line a)"
  using assms(2) assms(1)
  by (auto simp: check_system_alerts_def alert_line_def Let_def split: if_splits)

lemma alert_types_in_table_order:
  "subseq (map alert_type (check_system_alerts fstr p)) [''CPU'', ''Memory'', ''Disk'', ''Swap'']"
  by (simp add: check_system_alerts_def Let_def)

lemma format_fixed_one_chars:
  assumes "c \<in> set (format_fixed 1 v)"
  shows "c = CHR ''-'' \<or> c = CHR ''.'' \<or> is_digit c"
  using assms unfolding format_fixed_one
  by (auto simp: digit_char_is_digit dest: str_nat_all_digits split: if_splits)

lemma format_fixed_one_no_newline: "CHR 0x0A \<notin> set (format_fixed 1 v)"
  using format_fixed_one_chars [of "CHR 0x0A" v] by (auto simp: is_digit_def)

text \<open>
  C6: the tool \<open>check_alerts\<close> answers with the fixed text "All systems normal - no alerts"
  when the list of alerts is empty. Otherwise it answers with a header followed by one
  line per alert, in the order of the list, which is the table order CPU, Memory, Disk,
  Swap; the line of an alert contains its domain and its message.
\<close>

theorem check_alerts_summary:
  "handle_call_tool fstr ftime p ''check_alerts'' arguments =
     Inr [TextContent ''text''
       (if check_system_alerts fstr p = [] then EMOJI_CHECK @ '' All systems normal - no alerts''
        else EMOJI_WARNING @ '' **System Alerts**'' @ NL @ NL
             @ concat (map (\<lambda>a. alert_line a @ NL) (check_system_alerts fstr p)))]
   \<and> subseq (map alert_type (check_system_alerts fstr p)) [''CPU'', ''Memory'', ''Disk'', ''Swap'']
   \<and> ((\<forall>v. CHR 0x0A \<notin> set (fstr v)) \<longrightarrow>
        terminated_lines (concat (map (\<lambda>a. alert_line a @ NL) (check_system_alerts fstr p)))
          = map alert_line (check_system_alerts fstr p))"
proof (intro conjI impI)
  show "handle_call_tool fstr ftime p ''check_alerts'' arguments =
     Inr [TextContent ''text''
       (if check_system_alerts fstr p = [] then EMOJI_CHECK @ '' All systems normal - no alerts''
        else EMOJI_WARNING @ '' **System Alerts**'' @ NL @ NL
             @ concat (map (\<lambda>a. alert_line a @ NL) (check_system_alerts fstr p)))]"
    by (simp add: handle_call_tool_def Let_def render_alerts_lines)
  show "subseq (map alert_type (check_system_alerts fstr p)) [''CPU'', ''Memory'', ''Disk'', ''Swap'']"
    by (rule alert_types_in_table_order)
  assume "\<forall>v. CHR 0x0A \<notin> set (fstr v)"
  then show "terminated_lines (concat (map (\<lambda>a. alert_line a @ NL) (check_system_alerts fstr p)))
      = map alert_line (check_system_alerts fstr p)"
    by (intro terminated_lines_concat alert_lines_no_newline) auto
qed

theorem check_alerts_summary_witness:
  "(\<forall>v. CHR 0x0A \<notin> set (format_fixed 1 v))
   \<and> handle_call_tool (format_fixed 1) seconds_text (sample 85 50 96 10) ''check_alerts'' None =
     Inr [TextContent ''text''
       (EMOJI_WARNING @ '' **System Alerts**'' @ NL @ NL
        @ EMOJI_YELLOW @ '' **CPU**: CPU usage is 85.0%'' @ NL
        @ EMOJI_RED @ '' **Disk**: Disk usage is 96.0%'' @ NL)]
   \<and> terminated_lines
        (concat (map (\<lambda>a. alert_line a @ NL) (check_system_alerts (format_fixed 1) (sample 85 50 96 10))))
     = [EMOJI_YELLOW @ '' **CPU**: CPU usage is 85.0%'', EMOJI_RED @ '' **Disk**: Disk usage is 96.0%'']
   \<and> handle_call_tool (format_fixed 1) seconds_text (sample 10 20 30 40) ''check_alerts'' None =
     Inr [TextContent ''text'' (EMOJI_CHECK @ '' All systems normal - no alerts'')]"
proof -
  have nl: "\<forall>v. CHR 0x0A \<notin> set (format_fixed 1 v)"
    by (intro allI format_fixed_one_no_newline)
  have a: "check_system_alerts (format_fixed 1) (sample 85 50 96 10) =
      [\<lparr>alert_level = ''medium'', alert_type = ''CPU'',
        alert_message = ''CPU usage is 85.0%'', alert_value = 85\<rparr>,
       \<lparr>alert_level = ''high'', alert_type = ''Disk'',
        alert_message = ''Disk usage is 96.0%'', alert_value = 96\<rparr>]"
    by (simp add: check_system_alerts_def sample_def idle_provider_def eval_text)
  have b: "check_system_alerts (format_fixed 1) (sample 10 20 30 40) = []"
    by (simp add: check_system_alerts_def sample_def idle_provider_def Let_def)
  from nl show ?thesis
    using check_alerts_summary [of "format_fixed 1" seconds_text "sample 85 50 96 10" None]
      check_alerts_summary [of "format_fixed 1" seconds_text "sample 10 20 30 40" None]
    unfolding a b by (simp add: alert_line_def)
qed



section \<open>Uptime\<close>













section \<open>The process report\<close>

lemma py_enumerate_index:
  "py_enumerate k xs = map (\<lambda>i. (k + i, xs ! i)) [0 ..< length xs]"
  unfolding py_enumerate_def
  by (rule nth_equalityI) simp_all

lemma get_top_processes_entries:
  "get_top_processes limit sort_by p =
     process_header limit sort_by
     @ process_entries
         (py_slice_to
            (py_sort_reverse (if sort_by = ''memory'' then p_memory_percent else p_cpu_percent)
               (map collect_process (process_iter p)))
            limit)"
proof -
  let ?shown = "py_slice_to
      (py_sort_reverse (if sort_by = ''memory'' then p_memory_percent else p_cpu_percent)
         (map collect_process (process_iter p))) limit"
  have "foldl (\<lambda>result (i, proc). result @ process_entry i proc)
          (process_header limit sort_by) (py_enumerate 1 ?shown)
      = process_header limit sort_by
        @ concat (map (\<lambda>(i, proc). process_entry i proc) (py_enumerate 1 ?shown))"
    using foldl_append_concat [of "\<lambda>(i, proc). process_entry i proc"
        "process_header limit sort_by" "py_enumerate 1 ?shown"]
    by (simp add: case_prod_unfold)
  also have "concat (map (\<lambda>(i, proc). process_entry i proc) (py_enumerate 1 ?shown))
      = process_entries ?shown"
    by (simp add: py_enumerate_index process_entries_def comp_def)
  finally show ?thesis
    by (simp add: get_top_processes_def process_header_def process_entry_def Let_def
        case_prod_unfold split: if_splits)
qed

lemma py_sort_reverse_sorted: "sorted_wrt (\<lambda>a b. k b \<le> k a) (py_sort_reverse k xs)"
  using sorted_sort_key [of "\<lambda>x. - k x" xs]
  by (simp add: py_sort_reverse_def sorted_map)

lemma py_sort_reverse_mset: "mset (py_sort_reverse k xs) = mset xs"
  by (simp add: py_sort_reverse_def)

lemma py_sort_reverse_stable:
  "filter (\<lambda>a. k a = v) (py_sort_reverse k xs) = filter (\<lambda>a. k a = v) xs"
  using sort_key_stable [of "\<lambda>x. - k x" "- v" xs]
  by (simp add: py_sort_reverse_def)

lemma py_slice_to_nonneg: "0 \<le> n \<Longrightarrow> py_slice_to xs n = take (nat n) xs"
  by (simp add: py_slice_to_def)

lemma collect_three_processes:
  "map collect_process three_processes =
     [\<lparr>p_pid = 101, p_name = Some ''alpha'', p_cpu_percent = 5, p_memory_percent = 3, p_memory_mb = 1\<rparr>,
      \<lparr>p_pid = 102, p_name = Some ''beta'', p_cpu_percent = 20, p_memory_percent = 1, p_memory_mb = 2\<rparr>,
      \<lparr>p_pid = 103, p_name = None, p_cpu_percent = 0, p_memory_percent = 2, p_memory_mb = 0\<rparr>]"
  by (simp add: three_processes_def collect_process_def)

lemma process_entries_three:
  "process_entries [a, b, c] = process_entry 1 a @ process_entry 2 b @ process_entry 3 c"
  by (simp add: process_entries_def upt_rec [of 0] upt_rec [of 1] upt_rec [of 2]
      numeral_2_eq_2 numeral_3_eq_3)

text \<open>
  C5: for every list of processes and every limit that is not negative, the report for
  the sort key cpu or memory lists the processes sorted by the selected percentage in
  descending order, truncated to the first \<open>limit\<close> of them, as entries numbered from 1
  with name, process id, cpu percentage, memory percentage and resident megabytes. The
  sort is a stable one: processes of equal percentage keep their order. Three processes
  with limit 10 are all listed, numbered 1 to 3; with limit 0 only the header is rendered.
\<close>

theorem get_top_processes_report:
  "(0 \<le> limit \<longrightarrow>
      get_top_processes limit ''cpu'' p =
        process_header limit ''cpu''
        @ process_entries (take (nat limit) (py_sort_reverse p_cpu_percent (map collect_process (process_iter p))))
      \<and> get_top_processes limit ''memory'' p =
        process_header limit ''memory''
        @ process_entries (take (nat limit) (py_sort_reverse p_memory_percent (map collect_process (process_iter p)))))
   \<and> sorted_wrt (\<lambda>a b. k b \<le> k a) (py_sort_reverse k xs)
   \<and> mset (py_sort_reverse k xs) = mset xs
   \<and> filter (\<lambda>a. k a = v) (py_sort_reverse k xs) = filter (\<lambda>a. k a = v) xs
   \<and> process_entries ps = concat (map (\<lambda>i. process_entry (i + 1) (ps ! i)) [0 ..< length ps])
   \<and> get_top_processes 10 ''cpu'' (idle_provider\<lparr>process_iter := three_processes\<rparr>) =
        process_header 10 ''cpu''
        @ process_entry 1 \<lparr>p_pid = 102, p_name = Some ''beta'', p_cpu_percent = 20, p_memory_percent = 1, p_memory_mb = 2\<rparr>
        @ process_entry 2 \<lparr>p_pid = 101, p_name = Some ''alpha'', p_cpu_percent = 5, p_memory_percent = 3, p_memory_mb = 1\<rparr>
        @ process_entry 3 \<lparr>p_pid = 103, p_name = None, p_cpu_percent = 0, p_memory_percent = 2, p_memory_mb = 0\<rparr>
   \<and> get_top_processes 10 ''memory'' (idle_provider\<lparr>process_iter := three_processes\<rparr>) =
        process_header 10 ''memory''
        @ process_entry 1 \<lparr>p_pid = 101, p_name = Some ''alpha'', p_cpu_percent = 5, p_memory_percent = 3, p_memory_mb = 1\<rparr>
        @ process_entry 2 \<lparr>p_pid = 103, p_name = None, p_cpu_percent = 0, p_memory_percent = 2, p_memory_mb = 0\<rparr>
        @ process_entry 3 \<lparr>p_pid = 102, p_name = Some ''beta'', p_cpu_percent = 20, p_memory_percent = 1, p_memory_mb = 2\<rparr>
   \<and> get_top_processes 0 sort_by p = process_header 0 sort_by
   \<and> process_header 0 ''cpu'' = EMOJI_TOP @ '' **Top 0 Processes by CPU**'' @ NL @ NL"
proof (intro conjI impI)
  assume "0 \<le> limit"
  then show "get_top_processes limit ''cpu'' p =
        process_header limit ''cpu''
        @ process_entries (take (nat limit) (py_sort_reverse p_cpu_percent (map collect_process (process_iter p))))"
    by (simp add: get_top_processes_entries py_slice_to_nonneg)
  from \<open>0 \<le> limit\<close> show "get_top_processes limit ''memory'' p =
        process_header limit ''memory''
        @ process_entries (take (nat limit) (py_sort_reverse p_memory_percent (map collect_process (process_iter p))))"
    by (simp add: get_top_processes_entries py_slice_to_nonneg)
next
  show "sorted_wrt (\<lambda>a b. k b \<le> k a) (py_sort_reverse k xs)"
    by (rule py_sort_reverse_sorted)
  show "mset (py_sort_reverse k xs) = mset xs"
    by (rule py_sort_reverse_mset)
  show "filter (\<lambda>a. k a = v) (py_sort_reverse k xs) = filter (\<lambda>a. k a = v) xs"
    by (rule py_sort_reverse_stable)
  show "process_entries ps = concat (map (\<lambda>i. process_entry (i + 1) (ps ! i)) [0 ..< length ps])"
    by (simp add: process_entries_def)
  show "get_top_processes 10 ''cpu'' (idle_provider\<lparr>process_iter := three_processes\<rparr>) =
        process_header 10 ''cpu''
        @ process_entry 1 \<lparr>p_pid = 102, p_name = Some ''beta'', p_cpu_percent = 20, p_memory_percent = 1, p_memory_mb = 2\<rparr>
        @ process_entry 2 \<lparr>p_pid = 101, p_name = Some ''alpha'', p_cpu_percent = 5, p_memory_percent = 3, p_memory_mb = 1\<rparr>
        @ process_entry 3 \<lparr>p_pid = 103, p_name = None, p_cpu_percent = 0, p_memory_percent = 2, p_memory_mb = 0\<rparr>"
    unfolding get_top_processes_entries
    by (simp add: collect_three_processes py_sort_reverse_def py_slice_to_def process_entries_three)
  show "get_top_processes 10 ''memory'' (idle_provider\<lparr>process_iter := three_processes\<rparr>) =
        process_header 10 ''memory''
        @ process_entry 1 \<lparr>p_pid = 101, p_name = Some ''alpha'', p_cpu_percent = 5, p_memory_percent = 3, p_memory_mb = 1\<rparr>
        @ process_entry 2 \<lparr>p_pid = 103, p_name = None, p_cpu_percent = 0, p_memory_percent = 2, p_memory_mb = 0\<rparr>
        @ process_entry 3 \<lparr>p_pid = 102, p_name = Some ''beta'', p_cpu_percent = 20, p_memory_percent = 1, p_memory_mb = 2\<rparr>"
    unfolding get_top_processes_entries
    by (simp add: collect_three_processes py_sort_reverse_def py_slice_to_def process_entries_three)
  show "get_top_processes 0 sort_by p = process_header 0 sort_by"
    by (simp add: get_top_processes_entries py_slice_to_def process_entries_def)
  show "process_header 0 ''cpu'' = EMOJI_TOP @ '' **Top 0 Processes by CPU**'' @ NL @ NL"
    by (simp add: process_header_def str_int_def str_nat_eval py_upper_def upper_char_def)
qed

theorem get_top_processes_report_witness:
  "(0::int) \<le> 2
   \<and> get_top_processes 2 ''cpu'' (idle_provider\<lparr>process_iter := three_processes\<rparr>) =
       EMOJI_TOP @ '' **Top 2 Processes by CPU**'' @ NL @ NL
       @ ''1. **beta** (PID: 102)'' @ NL
       @ ''   '' @ BULLET @ '' CPU: 20.0%'' @ NL
       @ ''   '' @ BULLET @ '' Memory: 1.0% (2.0 MB)'' @ NL @ NL
       @ ''2. **alpha** (PID: 101)'' @ NL
       @ ''   '' @ BULLET @ '' CPU: 5.0%'' @ NL
       @ ''   '' @ BULLET @ '' Memory: 3.0% (1.0 MB)'' @ NL @ NL"
proof -
  let ?p = "idle_provider\<lparr>process_iter := three_processes\<rparr>"
  have shown: "take (nat 2) (py_sort_reverse p_cpu_percent (map collect_process (process_iter ?p))) =
     [\<lparr>p_pid = 102, p_name = Some ''beta'', p_cpu_percent = 20, p_memory_percent = 1, p_memory_mb = 2\<rparr>,
      \<lparr>p_pid = 101, p_name = Some ''alpha'', p_cpu_percent = 5, p_memory_percent = 3, p_memory_mb = 1\<rparr>]"
    by (simp add: collect_three_processes py_sort_reverse_def)
  have header: "process_header 2 ''cpu'' = EMOJI_TOP @ '' **Top 2 Processes by CPU**'' @ NL @ NL"
    by (simp add: process_header_def str_int_def str_nat_eval digit_char_def py_upper_def upper_char_def)
  have e1: "process_entry 1 \<lparr>p_pid = 102, p_name = Some ''beta'', p_cpu_percent = 20, p_memory_percent = 1, p_memory_mb = 2\<rparr>
      = ''1. **beta** (PID: 102)'' @ NL
        @ ''   '' @ BULLET @ '' CPU: 20.0%'' @ NL
        @ ''   '' @ BULLET @ '' Memory: 1.0% (2.0 MB)'' @ NL @ NL"
    by (simp add: process_entry_def str_option_def eval_text)
  have e2: "process_entry 2 \<lparr>p_pid = 101, p_name = Some ''alpha'', p_cpu_percent = 5, p_memory_percent = 3, p_memory_mb = 1\<rparr>
      = ''2. **alpha** (PID: 101)'' @ NL
        @ ''   '' @ BULLET @ '' CPU: 5.0%'' @ NL
        @ ''   '' @ BULLET @ '' Memory: 3.0% (1.0 MB)'' @ NL @ NL"
    by (simp add: process_entry_def str_option_def eval_text)
  have two: "process_entries [a, b] = process_entry 1 a @ process_entry 2 b" for a b
    by (simp add: process_entries_def upt_rec [of 0] upt_rec [of 1] numeral_2_eq_2)
  have "(0::int) \<le> 2"
    by simp
  with get_top_processes_report [where limit = 2 and p = ?p]
  have "get_top_processes 2 ''cpu'' ?p =
      process_header 2 ''cpu''
      @ process_entries (take (nat 2) (py_sort_reverse p_cpu_percent (map collect_process (process_iter ?p))))"
    by blast
  then show ?thesis
    unfolding shown header two e1 e2 by simp
qed



end
